theory Spec2Isabelle
  imports Main
begin

section \<open>Policy impact dashboard (app.py): data model\<close>

text \<open>
  The script keeps three pandas data frames and re-runs top to bottom on every
  interaction. A data frame is modelled by its column names and its rows, each row
  holding one cell per column, in file order. A cell is a string, a number or the
  missing value NaN. Numeric cells are modelled by integers: the script only compares
  cells for equality. Row labels (the index) are not modelled.
\<close>

datatype cell = Str string | Num int | NaN

record table =
  columns :: "string list"
  rows :: "cell list list"

text \<open>\<^verbatim>\<open>pd.DataFrame()\<close>: no columns and no rows.\<close>

definition DataFrame_empty :: table where
  "DataFrame_empty = \<lparr>columns = [], rows = []\<rparr>"

text \<open>
  Exceptions that reach the script. \<open>KeyError\<close> and \<open>IndexError\<close> come from the
  script's own indexing; \<open>Raised msg\<close> is an exception raised inside a library
  call (the CSV reader, the chart library, the inference client), \<open>msg\<close> being
  its text.
\<close>

datatype exn = KeyError string | IndexError | Raised string

fun str_exn :: "exn \<Rightarrow> string" where
  "str_exn (KeyError k) = [CHR 0x27] @ k @ [CHR 0x27]"
| "str_exn IndexError = ''index 0 is out of bounds for axis 0 with size 0''"
| "str_exn (Raised m) = m"

subsection \<open>The pandas operations the script applies to a loaded table\<close>

text \<open>Position of a column name among the columns (\<^verbatim>\<open>columns.get_loc\<close>).\<close>

fun get_loc :: "string \<Rightarrow> string list \<Rightarrow> nat option" where
  "get_loc c [] = None"
| "get_loc c (x # xs) = (if x = c then Some 0 else map_option Suc (get_loc c xs))"

text \<open>\<^verbatim>\<open>df[c]\<close>: the cells of column \<open>c\<close>, one per row; KeyError when there is no such column.\<close>

definition getitem_col :: "table \<Rightarrow> string \<Rightarrow> exn + cell list" where
  "getitem_col df c =
     (case get_loc c (columns df) of
        None \<Rightarrow> Inl (KeyError c)
      | Some i \<Rightarrow> Inr (map (\<lambda>r. r ! i) (rows df)))"

text \<open>\<^verbatim>\<open>df.columns[0]\<close>: IndexError on a table without columns.\<close>

definition columns0 :: "table \<Rightarrow> exn + string" where
  "columns0 df = (case columns df of [] \<Rightarrow> Inl IndexError | c # _ \<Rightarrow> Inr c)"

text \<open>Elementwise equality of a cell with a value: a missing cell equals nothing.\<close>

definition cell_eq :: "cell \<Rightarrow> cell \<Rightarrow> bool" where
  "cell_eq a b = (a \<noteq> NaN \<and> b \<noteq> NaN \<and> a = b)"

text \<open>\<^verbatim>\<open>series == v\<close>: the boolean mask.\<close>

definition series_eq :: "cell list \<Rightarrow> cell \<Rightarrow> bool list" where
  "series_eq s v = map (\<lambda>x. cell_eq x v) s"

text \<open>\<^verbatim>\<open>df[mask]\<close>: a new table holding the rows whose mask entry is True.\<close>

definition getitem_mask :: "table \<Rightarrow> bool list \<Rightarrow> table" where
  "getitem_mask df bs = \<lparr>columns = columns df, rows = map fst (filter snd (zip (rows df) bs))\<rparr>"

text \<open>\<^verbatim>\<open>series.dropna()\<close> and \<^verbatim>\<open>series.unique()\<close> (distinct values, in order of first appearance).\<close>

definition dropna :: "cell list \<Rightarrow> cell list" where
  "dropna s = filter (\<lambda>x. x \<noteq> NaN) s"

fun unique_from :: "cell list \<Rightarrow> cell list \<Rightarrow> cell list" where
  "unique_from seen [] = []"
| "unique_from seen (x # xs) =
     (if x \<in> set seen then unique_from seen xs else x # unique_from (x # seen) xs)"

definition unique :: "cell list \<Rightarrow> cell list" where
  "unique s = unique_from [] s"

text \<open>\<^verbatim>\<open>df[df[c] == v]\<close>, the filter expression of all three tabs.\<close>

definition select_rows :: "table \<Rightarrow> string \<Rightarrow> cell \<Rightarrow> exn + table" where
  "select_rows df c v =
     (case getitem_col df c of
        Inl e \<Rightarrow> Inl e
      | Inr s \<Rightarrow> Inr (getitem_mask df (series_eq s v)))"

section \<open>Loaders (lines 19-44)\<close>

text \<open>
  \<^verbatim>\<open>pd.read_csv\<close> is a library call: the loaders take it as a parameter, a function
  of the \<^verbatim>\<open>on_bad_lines\<close> policy and the file path that returns a table or raises.
  What the loaders do holds for every such reader; the reader on files split into
  fields, further down, is the one the statements about lines are made for.
  The memoisation decorator does not change what a loader returns and is left out.
\<close>

datatype on_bad_lines = BadLinesError | BadLinesSkip

type_synonym reader = "on_bad_lines \<Rightarrow> string \<Rightarrow> exn + table"

definition load_budget_data :: "reader \<Rightarrow> exn + table" where
  "load_budget_data read_csv = read_csv BadLinesError ''Combined_Financial_Data.csv''"

definition load_expenditure_data :: "reader \<Rightarrow> exn + table" where
  "load_expenditure_data read_csv = read_csv BadLinesError ''Expenditure.csv''"

text \<open>
  The income-tax loader returns the table together with the messages it showed
  through \<^verbatim>\<open>st.error\<close>.
\<close>

definition load_income_tax_data :: "reader \<Rightarrow> table \<times> string list" where
  "load_income_tax_data read_csv =
     (case read_csv BadLinesSkip ''Income Tax.csv'' of
        Inr data \<Rightarrow> (data, [])
      | Inl e \<Rightarrow> (DataFrame_empty, [''Error loading Income Tax Data: '' @ str_exn e]))"

subsection \<open>The reader on files split into fields\<close>

text \<open>
  What \<^verbatim>\<open>pd.read_csv(path)\<close> and \<^verbatim>\<open>pd.read_csv(path, on_bad_lines="skip")\<close> do with
  the lines of a file, as far as the loaders depend on it. A file is its header (the
  column names) and its data lines, each line already split into fields. Blank lines
  are passed over. The expected number of fields is the header's, or the first data
  line's when that is larger (the extra leading fields of every line are then row
  labels, which a table does not hold). A later line with more fields than expected
  is a bad line: the default policy raises on it, the skip policy drops it. A line
  with fewer fields is not a bad line: it is filled up with missing values. A path
  without a file and a file without a header raise. The text of the exception on a
  bad line is cut after its first sentence.
\<close>

type_synonym csv_file = "string list \<times> cell list list"

type_synonym files = "string \<rightharpoonup> csv_file"

definition pad_line :: "nat \<Rightarrow> cell list \<Rightarrow> cell list" where
  "pad_line w l = l @ replicate (w - length l) NaN"

definition expected_fields :: "string list \<Rightarrow> cell list list \<Rightarrow> nat" where
  "expected_fields hdr ls =
     (case filter (\<lambda>l. l \<noteq> []) ls of
        [] \<Rightarrow> length hdr
      | l # _ \<Rightarrow> max (length hdr) (length l))"

fun tokenize_rows :: "on_bad_lines \<Rightarrow> nat \<Rightarrow> cell list list \<Rightarrow> exn + cell list list" where
  "tokenize_rows policy w [] = Inr []"
| "tokenize_rows policy w (l # ls) =
     (if l = [] then tokenize_rows policy w ls
      else if w < length l then
        (case policy of
           BadLinesError \<Rightarrow> Inl (Raised ''Error tokenizing data'')
         | BadLinesSkip \<Rightarrow> tokenize_rows policy w ls)
      else (case tokenize_rows policy w ls of
              Inl e \<Rightarrow> Inl e
            | Inr rs \<Rightarrow> Inr (pad_line w l # rs)))"

definition read_csv :: "files \<Rightarrow> reader" where
  "read_csv fs policy path =
     (case fs path of
        None \<Rightarrow> Inl (Raised (''[Errno 2] No such file or directory: '' @ [CHR 0x27] @ path @ [CHR 0x27]))
      | Some (hdr, ls) \<Rightarrow>
          if hdr = [] then Inl (Raised ''No columns to parse from file'')
          else (case tokenize_rows policy (expected_fields hdr ls) ls of
                  Inl e \<Rightarrow> Inl e
                | Inr rs \<Rightarrow>
                    Inr \<lparr>columns = hdr,
                         rows = map (drop (expected_fields hdr ls - length hdr)) rs\<rparr>))"


section \<open>Inference bridge (lines 9-16)\<close>

text \<open>
  The hosted model is a parameter: a function from the request payload to the parsed
  response, a dictionary from field names to their text, or an exception. The payload
  \<^verbatim>\<open>{"inputs": {"question": q, "context": c}}\<close> is a record of its two fields.
\<close>

record payload =
  inputs_question :: string
  inputs_context :: string

type_synonym response = "string \<rightharpoonup> string"

type_synonym inference_api = "payload \<Rightarrow> exn + response"

definition query_hf_api :: "inference_api \<Rightarrow> string \<Rightarrow> string \<Rightarrow> exn + string" where
  "query_hf_api api q c =
     (case api \<lparr>inputs_question = q, inputs_context = c\<rparr> of
        Inl e \<Rightarrow> Inl e
      | Inr result \<Rightarrow>
          Inr (case result ''answer'' of Some a \<Rightarrow> a | None \<Rightarrow> ''No answer found.''))"

section \<open>The page (lines 46-179)\<close>

text \<open>
  A run of the script works on a session: the three loaded tables and the elements
  written to the page so far. Of the page, the model keeps the elements that carry
  data (tables, column lists, charts, error boxes, the answer); titles and rules are
  left out. An exception ends the run.

  The remaining library calls are parameters, collected in a record: the CSV reader,
  the table display \<^verbatim>\<open>st.dataframe\<close> (it shows the table or raises, for instance on
  a column it cannot convert), the chart constructor (\<^verbatim>\<open>px.bar\<close>, \<^verbatim>\<open>px.line\<close>,
  \<^verbatim>\<open>px.pie\<close>, by chart kind, on a table and two column names, with the display of the
  chart; the title is left out), \<^verbatim>\<open>pd.concat(..., ignore_index=True)\<close>,
  \<^verbatim>\<open>DataFrame.to_string(index=False)\<close> and the hosted model.
\<close>

datatype chart_kind = BarChart | LineChart | PieChart

datatype dataset_kind = BudgetData | ExpenditureData | IncomeTaxData

datatype 'fig element =
    StError string
  | WriteColumns "string list"
  | Dataframe table
  | PlotlyChart 'fig
  | Write string

record 'fig session =
  budget_data :: table
  expenditure_data :: table
  income_tax_data :: table
  screen :: "'fig element list"

record 'fig libs =
  pd_read_csv :: reader
  st_dataframe :: "table \<Rightarrow> exn option"
  px_chart :: "chart_kind \<Rightarrow> table \<Rightarrow> string \<Rightarrow> string \<Rightarrow> exn + 'fig"
  pd_concat :: "table list \<Rightarrow> table"
  df_to_string :: "table \<Rightarrow> string"
  hf_api :: inference_api

text \<open>
  What the widgets returned in the current run: the dataset type, the value picked in
  the tab's drop-down, the chart kind, the two axis columns and the question text. A
  select box returns one of the options it was given, so the options a tab computes
  matter to a run only through the exception their computation may raise.
\<close>

record inputs =
  dataset_type :: dataset_kind
  selected :: cell
  chart_type :: chart_kind
  x_axis :: string
  y_axis :: string
  asked :: string

subsection \<open>Budget tab (lines 57-81)\<close>

definition budget_sources :: "table \<Rightarrow> exn + cell list" where
  "budget_sources df =
     (case getitem_col df ''Source'' of
        Inl e \<Rightarrow> Inl e
      | Inr s \<Rightarrow> Inr (unique (dropna s)))"

definition filtered_budget_data :: "table \<Rightarrow> cell \<Rightarrow> exn + table" where
  "filtered_budget_data df selected_budget_source =
     select_rows df ''Source'' selected_budget_source"

definition budget_tab :: "'fig libs \<Rightarrow> inputs \<Rightarrow> 'fig session \<Rightarrow> exn + 'fig session" where
  "budget_tab L inp s =
     (case budget_sources (budget_data s) of
        Inl e \<Rightarrow> Inl e
      | Inr opts \<Rightarrow>
     (case filtered_budget_data (budget_data s) (selected inp) of
        Inl e \<Rightarrow> Inl e
      | Inr view \<Rightarrow>
     (case st_dataframe L view of
        Some e \<Rightarrow> Inl e
      | None \<Rightarrow>
     (case px_chart L (chart_type inp) view (x_axis inp) (y_axis inp) of
        Inl e \<Rightarrow> Inl e
      | Inr fig \<Rightarrow> Inr (s\<lparr>screen := screen s @ [Dataframe view, PlotlyChart fig]\<rparr>)))))"

subsection \<open>Expenditure tab (lines 83-124) and income-tax tab (lines 126-167)\<close>

text \<open>
  The two tabs run the same code on their own table; the income-tax tab names its
  variables \<^verbatim>\<open>categories\<close>, \<^verbatim>\<open>selected_category\<close> and \<^verbatim>\<open>filtered_income_tax_data\<close>.
\<close>

definition item_groups :: "table \<Rightarrow> exn + cell list" where
  "item_groups df =
     (case columns0 df of
        Inl e \<Rightarrow> Inl e
      | Inr c \<Rightarrow>
     (case getitem_col df c of
        Inl e \<Rightarrow> Inl e
      | Inr s \<Rightarrow> Inr (unique (dropna s))))"

definition dropdown_options :: "table \<Rightarrow> exn + cell list" where
  "dropdown_options df =
     (case item_groups df of
        Inl e \<Rightarrow> Inl e
      | Inr groups \<Rightarrow> Inr (Str ''Show Full Table'' # groups))"

definition filtered_expenditure_data :: "table \<Rightarrow> cell \<Rightarrow> exn + table" where
  "filtered_expenditure_data df selected_item_group =
     (case columns0 df of
        Inl e \<Rightarrow> Inl e
      | Inr c \<Rightarrow> select_rows df c selected_item_group)"

text \<open>
  Lines 96-102 and 111-114: the table shown and the table charted are the same, the
  whole table when the selection equals the text of the first drop-down entry.
\<close>

definition data_to_plot :: "table \<Rightarrow> cell \<Rightarrow> exn + table" where
  "data_to_plot df selected_item_group =
     (if selected_item_group = Str ''Show Full Table'' then Inr df
      else filtered_expenditure_data df selected_item_group)"

text \<open>The tab on table \<open>df\<close>: column list, drop-down, table shown, chart.\<close>

definition category_tab :: "'fig libs \<Rightarrow> inputs \<Rightarrow> table \<Rightarrow> 'fig session \<Rightarrow> exn + 'fig session" where
  "category_tab L inp df s =
     (case dropdown_options df of
        Inl e \<Rightarrow> Inl e
      | Inr opts \<Rightarrow>
     (case data_to_plot df (selected inp) of
        Inl e \<Rightarrow> Inl e
      | Inr view \<Rightarrow>
     (case st_dataframe L view of
        Some e \<Rightarrow> Inl e
      | None \<Rightarrow>
     (case px_chart L (chart_type inp) view (x_axis inp) (y_axis inp) of
        Inl e \<Rightarrow> Inl e
      | Inr fig \<Rightarrow>
          Inr (s\<lparr>screen := screen s @ [WriteColumns (columns df), Dataframe view, PlotlyChart fig]\<rparr>)))))"

definition expenditure_tab :: "'fig libs \<Rightarrow> inputs \<Rightarrow> 'fig session \<Rightarrow> exn + 'fig session" where
  "expenditure_tab L inp s = category_tab L inp (expenditure_data s) s"

definition income_tax_tab :: "'fig libs \<Rightarrow> inputs \<Rightarrow> 'fig session \<Rightarrow> exn + 'fig session" where
  "income_tax_tab L inp s = category_tab L inp (income_tax_data s) s"

definition render_tab :: "'fig libs \<Rightarrow> inputs \<Rightarrow> 'fig session \<Rightarrow> exn + 'fig session" where
  "render_tab L inp s =
     (case dataset_type inp of
        BudgetData \<Rightarrow> budget_tab L inp s
      | ExpenditureData \<Rightarrow> expenditure_tab L inp s
      | IncomeTaxData \<Rightarrow> income_tax_tab L inp s)"

subsection \<open>Question block (lines 169-179)\<close>

definition all_data_context :: "'fig libs \<Rightarrow> 'fig session \<Rightarrow> string" where
  "all_data_context L s =
     df_to_string L (pd_concat L [budget_data s, expenditure_data s, income_tax_data s])"

definition question_block :: "'fig libs \<Rightarrow> string \<Rightarrow> 'fig session \<Rightarrow> exn + 'fig session" where
  "question_block L q s =
     (if q = [] then Inr s
      else (case query_hf_api (hf_api L) q (all_data_context L s) of
              Inl e \<Rightarrow> Inl e
            | Inr answer \<Rightarrow> Inr (s\<lparr>screen := screen s @ [Write (''**Answer:** '' @ answer)]\<rparr>)))"

subsection \<open>One run of the script\<close>

definition app :: "'fig libs \<Rightarrow> inputs \<Rightarrow> exn + 'fig session" where
  "app L inp =
     (case load_budget_data (pd_read_csv L) of
        Inl e \<Rightarrow> Inl e
      | Inr b \<Rightarrow>
     (case load_expenditure_data (pd_read_csv L) of
        Inl e \<Rightarrow> Inl e
      | Inr x \<Rightarrow>
     (case load_income_tax_data (pd_read_csv L) of
        (t, errs) \<Rightarrow>
     (case render_tab L inp
             \<lparr>budget_data = b, expenditure_data = x, income_tax_data = t,
              screen = map StError errs\<rparr> of
        Inl e \<Rightarrow> Inl e
      | Inr s \<Rightarrow> question_block L (asked inp) s))))"

section \<open>Example inputs\<close>

text \<open>
  Concrete inputs at which the theorems below are instantiated: a three-row table
  with sources A and B, a table whose first column holds the text of the drop-down's
  first entry, a file system whose income-tax file has a short line, a long line and
  a blank line, a reader that serves the example table and fails on the listed files,
  and stubs for the other library calls. The stub chart constructor returns the
  arguments it was called with; the echoing model answers with the context it got.
\<close>

definition example_table :: table where
  "example_table =
     \<lparr>columns = [''Source'', ''Amount''],
      rows = [[Str ''A'', Num 1], [Str ''B'', Num 2], [Str ''A'', Num 3]]\<rparr>"

definition clash_table :: table where
  "clash_table = \<lparr>columns = [''Item''], rows = [[Str ''Show Full Table''], [Str ''x'']]\<rparr>"

definition example_files :: files where
  "example_files =
     [''Income Tax.csv'' \<mapsto>
        ([''Category'', ''Amount''],
         [[Str ''A'', Num 1], [Str ''B''], [Str ''C'', Num 3, Num 9], [], [Str ''D'', Num 4]])]"

definition reader_failing_on :: "string list \<Rightarrow> reader" where
  "reader_failing_on bad policy path =
     (if path \<in> set bad then Inl (Raised ''No columns to parse from file'')
      else Inr example_table)"

type_synonym px_call = "chart_kind \<times> table \<times> string \<times> string"

definition stub_libs :: "reader \<Rightarrow> inference_api \<Rightarrow> px_call libs" where
  "stub_libs rd api =
     \<lparr>pd_read_csv = rd,
      st_dataframe = (\<lambda>t. None),
      px_chart = (\<lambda>k d x y. Inr (k, d, x, y)),
      pd_concat = (\<lambda>ts. \<lparr>columns = [], rows = concat (map rows ts)\<rparr>),
      df_to_string = (\<lambda>t. ''rows: '' @ replicate (length (rows t)) CHR ''*''),
      hf_api = api\<rparr>"

definition api_42 :: inference_api where
  "api_42 p = Inr [''answer'' \<mapsto> ''42'']"

definition api_echo :: inference_api where
  "api_echo p = Inr [''answer'' \<mapsto> inputs_context p]"

definition example_session :: "px_call session" where
  "example_session =
     \<lparr>budget_data = example_table, expenditure_data = example_table,
      income_tax_data = example_table, screen = []\<rparr>"

definition example_inputs :: "dataset_kind \<Rightarrow> cell \<Rightarrow> string \<Rightarrow> inputs" where
  "example_inputs tab sel q =
     \<lparr>dataset_type = tab, selected = sel, chart_type = BarChart,
      x_axis = ''Source'', y_axis = ''Amount'', asked = q\<rparr>"

section \<open>Facts about the table operations\<close>

lemma get_loc_Some: "get_loc c cs = Some i \<Longrightarrow> i < length cs \<and> cs ! i = c"
  by (induction cs arbitrary: i) (auto split: if_splits)

lemma get_loc_None: "get_loc c cs = None \<longleftrightarrow> c \<notin> set cs"
  by (induction cs) auto

lemma mask_rows: "map fst (filter snd (zip rs (map (\<lambda>r. P r) rs))) = filter P rs"
  by (induction rs) auto

lemma set_unique_from: "set (unique_from seen xs) = set xs - set seen"
  by (induction seen xs rule: unique_from.induct) auto

lemma distinct_unique_from: "distinct (unique_from seen xs)"
  by (induction seen xs rule: unique_from.induct) (auto simp: set_unique_from)

lemma set_unique: "set (unique s) = set s"
  by (simp add: unique_def set_unique_from)

lemma distinct_unique: "distinct (unique s)"
  by (simp add: unique_def distinct_unique_from)

lemma set_dropna: "set (dropna s) = set s - {NaN}"
  by (auto simp: dropna_def)

lemma cell_eq_iff: "v \<noteq> NaN \<Longrightarrow> cell_eq a v \<longleftrightarrow> a = v"
  by (auto simp: cell_eq_def)

lemma select_rows_filter:
  assumes "get_loc c (columns df) = Some i"
  shows "select_rows df c v =
    Inr \<lparr>columns = columns df, rows = filter (\<lambda>r. cell_eq (r ! i) v) (rows df)\<rparr>"
  using assms
  by (simp add: select_rows_def getitem_col_def getitem_mask_def series_eq_def
      mask_rows [where P = "\<lambda>r. cell_eq (r ! i) v"] comp_def)

lemma length_filter_count: "length (filter (\<lambda>r. f r = v) rs) = count_list (map f rs) v"
  by (induction rs) auto

lemma select_rows_nonempty:
  assumes "getitem_col df c = Inr s" and "v \<in> set s" and "v \<noteq> NaN"
  shows "\<exists>view. select_rows df c v = Inr view \<and> rows view \<noteq> []"
proof -
  from assms(1) obtain i where i: "get_loc c (columns df) = Some i"
    and s: "s = map (\<lambda>r. r ! i) (rows df)"
    by (auto simp: getitem_col_def split: option.splits)
  from assms(2) s obtain r where r: "r \<in> set (rows df)" "r ! i = v" by auto
  with assms(3) have "cell_eq (r ! i) v" by (simp add: cell_eq_def)
  with r have "filter (\<lambda>r. cell_eq (r ! i) v) (rows df) \<noteq> []"
    by (auto simp: filter_empty_conv)
  with i show ?thesis by (simp add: select_rows_filter)
qed

lemma offered_in_column:
  assumes "v \<in> set (unique (dropna s))"
  shows "v \<in> set s \<and> v \<noteq> NaN"
  using assms by (simp add: set_unique set_dropna)

lemma dropdown_options_first_column:
  assumes "columns df \<noteq> []"
  shows "\<exists>groups. dropdown_options df = Inr (Str ''Show Full Table'' # groups)"
proof -
  from assms obtain c cs where "columns df = c # cs" by (cases "columns df") auto
  then show ?thesis
    by (simp add: dropdown_options_def item_groups_def columns0_def getitem_col_def)
qed

lemma budget_tab_frame:
  "budget_tab L inp s = Inr s' \<Longrightarrow>
     budget_data s' = budget_data s \<and> expenditure_data s' = expenditure_data s
     \<and> income_tax_data s' = income_tax_data s"
  unfolding budget_tab_def by (fastforce split: sum.splits option.splits)

lemma category_tab_frame:
  "category_tab L inp df s = Inr s' \<Longrightarrow>
     budget_data s' = budget_data s \<and> expenditure_data s' = expenditure_data s
     \<and> income_tax_data s' = income_tax_data s"
  unfolding category_tab_def by (fastforce split: sum.splits option.splits)

lemma question_block_frame:
  "question_block L q s = Inr s' \<Longrightarrow>
     budget_data s' = budget_data s \<and> expenditure_data s' = expenditure_data s
     \<and> income_tax_data s' = income_tax_data s"
  unfolding question_block_def by (fastforce split: sum.splits if_splits)

lemma render_tab_frame:
  "render_tab L inp s = Inr s' \<Longrightarrow>
     budget_data s' = budget_data s \<and> expenditure_data s' = expenditure_data s
     \<and> income_tax_data s' = income_tax_data s"
  unfolding render_tab_def expenditure_tab_def income_tax_tab_def
  using budget_tab_frame category_tab_frame
  by (cases "dataset_type inp") (simp_all, blast+)





text \<open>Evaluation rules for the example inputs.\<close>

lemmas example_defs =
  example_files_def example_table_def clash_table_def reader_failing_on_def stub_libs_def api_42_def
  api_echo_def example_session_def example_inputs_def

lemmas table_op_defs =
  getitem_col_def columns0_def cell_eq_def series_eq_def getitem_mask_def dropna_def
  unique_def select_rows_def budget_sources_def filtered_budget_data_def item_groups_def
  dropdown_options_def filtered_expenditure_data_def data_to_plot_def

lemmas page_defs =
  load_budget_data_def load_expenditure_data_def load_income_tax_data_def DataFrame_empty_def
  query_hf_api_def budget_tab_def category_tab_def expenditure_tab_def income_tax_tab_def
  render_tab_def all_data_context_def question_block_def app_def

section \<open>The claims\<close>

text \<open>
  C1 (as amended). For every table, every column C of it and every selected value v
  other than the text "Show Full Table" (a selected value is never a missing cell), the
  filter \<^verbatim>\<open>df[df[C] == v]\<close> returns exactly the rows whose cell in column C is v, unchanged,
  in table order, duplicates kept; their number is the number of occurrences of v in
  the column. The budget tab applies it with C = "Source", the other two tabs with the
  first column. Selecting "Show Full Table" in those two tabs returns the whole table.
\<close>

theorem filter_returns_matching_rows:
  assumes "get_loc C (columns df) = Some i" and "v \<noteq> NaN"
  shows "select_rows df C v =
           Inr \<lparr>columns = columns df, rows = filter (\<lambda>r. r ! i = v) (rows df)\<rparr>
    \<and> length (filter (\<lambda>r. r ! i = v) (rows df)) = count_list (map (\<lambda>r. r ! i) (rows df)) v
    \<and> (C = ''Source'' \<longrightarrow> filtered_budget_data df v = select_rows df C v)
    \<and> (columns0 df = Inr C \<and> v \<noteq> Str ''Show Full Table'' \<longrightarrow>
          data_to_plot df v = select_rows df C v)
    \<and> data_to_plot df (Str ''Show Full Table'') = Inr df"
proof -
  have "select_rows df C v =
      Inr \<lparr>columns = columns df, rows = filter (\<lambda>r. r ! i = v) (rows df)\<rparr>"
    using assms by (simp add: select_rows_filter cell_eq_iff)
  moreover have "length (filter (\<lambda>r. r ! i = v) (rows df)) =
      count_list (map (\<lambda>r. r ! i) (rows df)) v"
    by (rule length_filter_count)
  moreover have "C = ''Source'' \<longrightarrow> filtered_budget_data df v = select_rows df C v"
    by (simp add: filtered_budget_data_def)
  moreover have "columns0 df = Inr C \<and> v \<noteq> Str ''Show Full Table'' \<longrightarrow>
      data_to_plot df v = select_rows df C v"
    by (simp add: data_to_plot_def filtered_expenditure_data_def)
  moreover have "data_to_plot df (Str ''Show Full Table'') = Inr df"
    by (simp add: data_to_plot_def)
  ultimately show ?thesis by blast
qed

text \<open>
  The theorem at the example table, column "Source", value A: two rows of three.
\<close>

theorem filter_returns_matching_rows_witness:
  "get_loc ''Source'' (columns example_table) = Some 0
   \<and> select_rows example_table ''Source'' (Str ''A'')
     = Inr \<lparr>columns = [''Source'', ''Amount''], rows = [[Str ''A'', Num 1], [Str ''A'', Num 3]]\<rparr>
   \<and> filtered_budget_data example_table (Str ''A'')
     = Inr \<lparr>columns = [''Source'', ''Amount''], rows = [[Str ''A'', Num 1], [Str ''A'', Num 3]]\<rparr>
   \<and> data_to_plot example_table (Str ''A'')
     = Inr \<lparr>columns = [''Source'', ''Amount''], rows = [[Str ''A'', Num 1], [Str ''A'', Num 3]]\<rparr>
   \<and> count_list [Str ''A'', Str ''B'', Str ''A''] (Str ''A'') = 2
   \<and> data_to_plot example_table (Str ''Show Full Table'') = Inr example_table"
  using filter_returns_matching_rows [of "''Source''" example_table 0 "Str ''A''"]
  by (simp add: example_table_def columns0_def)

text \<open>
  C1 as stated fails where the table's first column holds the text "Show Full Table"
  itself: the value occurs in exactly one row of the two, the drop-down offers it, and
  selecting it shows both rows, not that one row.
\<close>

theorem sentinel_value_counterexample:
  "getitem_col clash_table ''Item'' = Inr [Str ''Show Full Table'', Str ''x'']
   \<and> count_list [Str ''Show Full Table'', Str ''x''] (Str ''Show Full Table'') = 1
   \<and> dropdown_options clash_table
     = Inr [Str ''Show Full Table'', Str ''Show Full Table'', Str ''x'']
   \<and> data_to_plot clash_table (Str ''Show Full Table'')
     = Inr \<lparr>columns = [''Item''], rows = [[Str ''Show Full Table''], [Str ''x'']]\<rparr>
   \<and> data_to_plot clash_table (Str ''Show Full Table'')
     \<noteq> Inr \<lparr>columns = [''Item''], rows = [[Str ''Show Full Table'']]\<rparr>"
  by (simp add: clash_table_def getitem_col_def dropdown_options_def item_groups_def
      columns0_def data_to_plot_def unique_def dropna_def)


text \<open>
  C2. The inference bridge returns the "answer" field of the response when the field
  is present, the fixed text "No answer found." when it is absent, and raises what
  the remote call raises.
\<close>

theorem query_hf_api_answer_or_fallback:
  "(api \<lparr>inputs_question = q, inputs_context = c\<rparr> = Inr result \<and> result ''answer'' = Some a
      \<longrightarrow> query_hf_api api q c = Inr a)
   \<and> (api \<lparr>inputs_question = q, inputs_context = c\<rparr> = Inr result \<and> result ''answer'' = None
      \<longrightarrow> query_hf_api api q c = Inr ''No answer found.'')
   \<and> (api \<lparr>inputs_question = q, inputs_context = c\<rparr> = Inl e
      \<longrightarrow> query_hf_api api q c = Inl e)"
  by (simp add: query_hf_api_def)

text \<open>
  The three cases at stubbed models: one answering 42, one answering without an
  "answer" field, one timing out.
\<close>

theorem query_hf_api_answer_or_fallback_witness:
  "query_hf_api api_42 ''why'' ''ctx'' = Inr ''42''
   \<and> query_hf_api (\<lambda>p. Inr [''score'' \<mapsto> ''0.1'']) ''why'' ''ctx'' = Inr ''No answer found.''
   \<and> query_hf_api (\<lambda>p. Inl (Raised ''timed out'')) ''why'' ''ctx'' = Inl (Raised ''timed out'')"
  using query_hf_api_answer_or_fallback [of api_42 "''why''" "''ctx''"
      "[''answer'' \<mapsto> ''42'']" "''42''" "Raised ''timed out''"]
    query_hf_api_answer_or_fallback [of "\<lambda>p. Inr [''score'' \<mapsto> ''0.1'']" "''why''" "''ctx''"
      "[''score'' \<mapsto> ''0.1'']" "''42''" "Raised ''timed out''"]
    query_hf_api_answer_or_fallback [of "\<lambda>p. Inl (Raised ''timed out'')" "''why''" "''ctx''"
      "Map.empty" "''42''" "Raised ''timed out''"]
  by (simp add: api_42_def)




text \<open>
  C5. Every value the drop-down offers besides its first entry is a non-missing cell
  of the filter column (the Source column in the budget tab, the first column in the
  other two), and filtering by it shows at least one row.
\<close>

theorem offered_value_occurs:
  "(budget_sources df = Inr opts \<and> v \<in> set opts \<longrightarrow>
      (\<exists>s view. getitem_col df ''Source'' = Inr s \<and> v \<in> set s
         \<and> filtered_budget_data df v = Inr view \<and> rows view \<noteq> []))
   \<and> (item_groups df = Inr groups \<and> v \<in> set groups \<longrightarrow>
      dropdown_options df = Inr (Str ''Show Full Table'' # groups)
      \<and> (\<exists>c s view. columns0 df = Inr c \<and> getitem_col df c = Inr s \<and> v \<in> set s
         \<and> data_to_plot df v = Inr view \<and> rows view \<noteq> []))"
proof (intro conjI impI)
  assume a: "budget_sources df = Inr opts \<and> v \<in> set opts"
  then obtain s where s: "getitem_col df ''Source'' = Inr s" and o: "opts = unique (dropna s)"
    by (auto simp: budget_sources_def split: sum.splits)
  from a o have "v \<in> set (unique (dropna s))" by simp
  then have v: "v \<in> set s \<and> v \<noteq> NaN" by (rule offered_in_column)
  with s obtain view where "select_rows df ''Source'' v = Inr view \<and> rows view \<noteq> []"
    using select_rows_nonempty by blast
  with s v show "\<exists>s view. getitem_col df ''Source'' = Inr s \<and> v \<in> set s
         \<and> filtered_budget_data df v = Inr view \<and> rows view \<noteq> []"
    by (auto simp: filtered_budget_data_def)
next
  assume a: "item_groups df = Inr groups \<and> v \<in> set groups"
  then show "dropdown_options df = Inr (Str ''Show Full Table'' # groups)"
    by (simp add: dropdown_options_def)
next
  assume a: "item_groups df = Inr groups \<and> v \<in> set groups"
  then obtain c s where c: "columns0 df = Inr c" and s: "getitem_col df c = Inr s"
    and o: "groups = unique (dropna s)"
    by (auto simp: item_groups_def split: sum.splits)
  from a o have "v \<in> set (unique (dropna s))" by simp
  then have v: "v \<in> set s \<and> v \<noteq> NaN" by (rule offered_in_column)
  with s obtain view where view: "select_rows df c v = Inr view \<and> rows view \<noteq> []"
    using select_rows_nonempty by blast
  from s v have nonempty: "rows df \<noteq> []"
    by (auto simp: getitem_col_def split: option.splits)
  have "\<exists>view. data_to_plot df v = Inr view \<and> rows view \<noteq> []"
  proof (cases "v = Str ''Show Full Table''")
    case True
    with nonempty show ?thesis by (simp add: data_to_plot_def)
  next
    case False
    with c view show ?thesis by (simp add: data_to_plot_def filtered_expenditure_data_def)
  qed
  with c s v show "\<exists>c s view. columns0 df = Inr c \<and> getitem_col df c = Inr s \<and> v \<in> set s
         \<and> data_to_plot df v = Inr view \<and> rows view \<noteq> []"
    by blast
qed

text \<open>The options of the example table, and the rows shown for the offered value B.\<close>

theorem offered_value_occurs_witness:
  "budget_sources example_table = Inr [Str ''A'', Str ''B'']
   \<and> Str ''B'' \<in> set [Str ''A'', Str ''B'']
   \<and> filtered_budget_data example_table (Str ''B'')
     = Inr \<lparr>columns = [''Source'', ''Amount''], rows = [[Str ''B'', Num 2]]\<rparr>
   \<and> item_groups example_table = Inr [Str ''A'', Str ''B'']
   \<and> dropdown_options example_table = Inr [Str ''Show Full Table'', Str ''A'', Str ''B'']
   \<and> data_to_plot example_table (Str ''B'')
     = Inr \<lparr>columns = [''Source'', ''Amount''], rows = [[Str ''B'', Num 2]]\<rparr>"
  using offered_value_occurs [of example_table "[Str ''A'', Str ''B'']" "Str ''B''"
      "[Str ''A'', Str ''B'']"]
  by (simp add: example_table_def table_op_defs)

text \<open>
  C6 (as amended). The expenditure and income-tax tabs offer "Show Full Table" as the
  first entry of their drop-down whenever the table has a column. When it is selected
  they hand the whole table to the table display and to the chart constructor: the
  page shows the whole table if neither raises, and the tab ends with the display's
  exception if the display raises. The budget tab has no such entry: it offers the
  distinct non-missing values of the Source column and nothing else, and its view is
  the rows whose Source equals the selection, whatever the selection is.
\<close>

theorem sentinel_on_category_tabs_only:
  "(columns df \<noteq> [] \<longrightarrow>
      (\<exists>groups. dropdown_options df = Inr (Str ''Show Full Table'' # groups))
      \<and> data_to_plot df (Str ''Show Full Table'') = Inr df)
   \<and> (selected inp = Str ''Show Full Table'' \<and> columns (expenditure_data s) \<noteq> []
        \<and> st_dataframe L (expenditure_data s) = None
        \<and> px_chart L (chart_type inp) (expenditure_data s) (x_axis inp) (y_axis inp) = Inr fig
      \<longrightarrow> expenditure_tab L inp s =
            Inr (s\<lparr>screen := screen s @
                   [WriteColumns (columns (expenditure_data s)),
                    Dataframe (expenditure_data s), PlotlyChart fig]\<rparr>))
   \<and> (selected inp = Str ''Show Full Table'' \<and> columns (income_tax_data s) \<noteq> []
        \<and> st_dataframe L (income_tax_data s) = None
        \<and> px_chart L (chart_type inp) (income_tax_data s) (x_axis inp) (y_axis inp) = Inr fig
      \<longrightarrow> income_tax_tab L inp s =
            Inr (s\<lparr>screen := screen s @
                   [WriteColumns (columns (income_tax_data s)),
                    Dataframe (income_tax_data s), PlotlyChart fig]\<rparr>))
   \<and> (selected inp = Str ''Show Full Table'' \<and> columns (expenditure_data s) \<noteq> []
        \<and> st_dataframe L (expenditure_data s) = Some e
      \<longrightarrow> expenditure_tab L inp s = Inl e)
   \<and> (selected inp = Str ''Show Full Table'' \<and> columns (income_tax_data s) \<noteq> []
        \<and> st_dataframe L (income_tax_data s) = Some e
      \<longrightarrow> income_tax_tab L inp s = Inl e)
   \<and> (budget_sources df = Inr opts \<longrightarrow>
        distinct opts \<and> (\<exists>src. getitem_col df ''Source'' = Inr src \<and> set opts = set src - {NaN}))
   \<and> (get_loc ''Source'' (columns df) = Some i \<longrightarrow>
        filtered_budget_data df v =
          Inr \<lparr>columns = columns df, rows = filter (\<lambda>r. cell_eq (r ! i) v) (rows df)\<rparr>)"
proof (intro conjI impI)
  assume "columns df \<noteq> []"
  then show "\<exists>groups. dropdown_options df = Inr (Str ''Show Full Table'' # groups)"
    by (rule dropdown_options_first_column)
next
  show "data_to_plot df (Str ''Show Full Table'') = Inr df"
    by (simp add: data_to_plot_def)
next
  assume a: "selected inp = Str ''Show Full Table'' \<and> columns (expenditure_data s) \<noteq> []
    \<and> st_dataframe L (expenditure_data s) = None
    \<and> px_chart L (chart_type inp) (expenditure_data s) (x_axis inp) (y_axis inp) = Inr fig"
  then obtain groups where
    "dropdown_options (expenditure_data s) = Inr (Str ''Show Full Table'' # groups)"
    using dropdown_options_first_column by blast
  with a show "expenditure_tab L inp s =
      Inr (s\<lparr>screen := screen s @
             [WriteColumns (columns (expenditure_data s)),
              Dataframe (expenditure_data s), PlotlyChart fig]\<rparr>)"
    by (simp add: expenditure_tab_def category_tab_def data_to_plot_def)
next
  assume a: "selected inp = Str ''Show Full Table'' \<and> columns (income_tax_data s) \<noteq> []
    \<and> st_dataframe L (income_tax_data s) = None
    \<and> px_chart L (chart_type inp) (income_tax_data s) (x_axis inp) (y_axis inp) = Inr fig"
  then obtain groups where
    "dropdown_options (income_tax_data s) = Inr (Str ''Show Full Table'' # groups)"
    using dropdown_options_first_column by blast
  with a show "income_tax_tab L inp s =
      Inr (s\<lparr>screen := screen s @
             [WriteColumns (columns (income_tax_data s)),
              Dataframe (income_tax_data s), PlotlyChart fig]\<rparr>)"
    by (simp add: income_tax_tab_def category_tab_def data_to_plot_def)
next
  assume a: "selected inp = Str ''Show Full Table'' \<and> columns (expenditure_data s) \<noteq> []
    \<and> st_dataframe L (expenditure_data s) = Some e"
  then obtain groups where
    "dropdown_options (expenditure_data s) = Inr (Str ''Show Full Table'' # groups)"
    using dropdown_options_first_column by blast
  with a show "expenditure_tab L inp s = Inl e"
    by (simp add: expenditure_tab_def category_tab_def data_to_plot_def)
next
  assume a: "selected inp = Str ''Show Full Table'' \<and> columns (income_tax_data s) \<noteq> []
    \<and> st_dataframe L (income_tax_data s) = Some e"
  then obtain groups where
    "dropdown_options (income_tax_data s) = Inr (Str ''Show Full Table'' # groups)"
    using dropdown_options_first_column by blast
  with a show "income_tax_tab L inp s = Inl e"
    by (simp add: income_tax_tab_def category_tab_def data_to_plot_def)
next
  assume a: "budget_sources df = Inr opts"
  then obtain src where src: "getitem_col df ''Source'' = Inr src"
    and o: "opts = unique (dropna src)"
    by (auto simp: budget_sources_def split: sum.splits)
  from o show "distinct opts" by (simp add: distinct_unique)
  from src o show "\<exists>src. getitem_col df ''Source'' = Inr src \<and> set opts = set src - {NaN}"
    by (simp add: set_unique set_dropna)
next
  assume "get_loc ''Source'' (columns df) = Some i"
  then show "filtered_budget_data df v =
      Inr \<lparr>columns = columns df, rows = filter (\<lambda>r. cell_eq (r ! i) v) (rows df)\<rparr>"
    by (simp add: filtered_budget_data_def select_rows_filter)
qed

text \<open>
  The expenditure and income-tax tabs on the example session with "Show Full Table"
  selected, once with a table display that shows every table and once with one that
  raises; and the budget options of the example table.
\<close>

theorem sentinel_on_category_tabs_only_witness:
  "dropdown_options example_table = Inr [Str ''Show Full Table'', Str ''A'', Str ''B'']
   \<and> expenditure_tab (stub_libs (reader_failing_on []) api_42)
        (example_inputs ExpenditureData (Str ''Show Full Table'') []) example_session
     = Inr (example_session\<lparr>screen :=
          [WriteColumns [''Source'', ''Amount''], Dataframe example_table,
           PlotlyChart (BarChart, example_table, ''Source'', ''Amount'')]\<rparr>)
   \<and> income_tax_tab (stub_libs (reader_failing_on []) api_42)
        (example_inputs IncomeTaxData (Str ''Show Full Table'') []) example_session
     = Inr (example_session\<lparr>screen :=
          [WriteColumns [''Source'', ''Amount''], Dataframe example_table,
           PlotlyChart (BarChart, example_table, ''Source'', ''Amount'')]\<rparr>)
   \<and> expenditure_tab
        ((stub_libs (reader_failing_on []) api_42)
           \<lparr>st_dataframe := (\<lambda>t. Some (Raised ''Could not convert dataframe''))\<rparr>)
        (example_inputs ExpenditureData (Str ''Show Full Table'') []) example_session
     = Inl (Raised ''Could not convert dataframe'')
   \<and> income_tax_tab
        ((stub_libs (reader_failing_on []) api_42)
           \<lparr>st_dataframe := (\<lambda>t. Some (Raised ''Could not convert dataframe''))\<rparr>)
        (example_inputs IncomeTaxData (Str ''Show Full Table'') []) example_session
     = Inl (Raised ''Could not convert dataframe'')
   \<and> budget_sources example_table = Inr [Str ''A'', Str ''B'']
   \<and> filtered_budget_data example_table (Str ''B'')
     = Inr \<lparr>columns = [''Source'', ''Amount''], rows = [[Str ''B'', Num 2]]\<rparr>"
  using sentinel_on_category_tabs_only [of example_table
      "example_inputs ExpenditureData (Str ''Show Full Table'') []" example_session
      "stub_libs (reader_failing_on []) api_42"
      "(BarChart, example_table, ''Source'', ''Amount'')" "Raised ''Could not convert dataframe''"
      "[Str ''A'', Str ''B'']" 0 "Str ''B''"]
    sentinel_on_category_tabs_only [of example_table
      "example_inputs IncomeTaxData (Str ''Show Full Table'') []" example_session
      "(stub_libs (reader_failing_on []) api_42)
         \<lparr>st_dataframe := (\<lambda>t. Some (Raised ''Could not convert dataframe''))\<rparr>"
      "(BarChart, example_table, ''Source'', ''Amount'')" "Raised ''Could not convert dataframe''"
      "[Str ''A'', Str ''B'']" 0 "Str ''B''"]
  by (simp add: example_defs table_op_defs expenditure_tab_def income_tax_tab_def
      category_tab_def)

text \<open>
  C6 as stated fails on the budget tab: for the example table the drop-down offers A
  and B only, selecting either shows a proper part of the table, and the text
  "Show Full Table" as selection shows no row at all.
\<close>

theorem budget_tab_no_sentinel_counterexample:
  "budget_sources example_table = Inr [Str ''A'', Str ''B'']
   \<and> filtered_budget_data example_table (Str ''A'')
     = Inr \<lparr>columns = [''Source'', ''Amount''], rows = [[Str ''A'', Num 1], [Str ''A'', Num 3]]\<rparr>
   \<and> filtered_budget_data example_table (Str ''B'')
     = Inr \<lparr>columns = [''Source'', ''Amount''], rows = [[Str ''B'', Num 2]]\<rparr>
   \<and> filtered_budget_data example_table (Str ''Show Full Table'')
     = Inr \<lparr>columns = [''Source'', ''Amount''], rows = []\<rparr>
   \<and> filtered_budget_data example_table (Str ''Show Full Table'') \<noteq> Inr example_table"
  by (simp add: example_table_def table_op_defs)

text \<open>
  C7. The budget and expenditure loaders have no fallback: what the reader raises,
  the loader raises, and the run of the script ends with that exception.
\<close>

theorem loaders_propagate:
  "(pd_read_csv L BadLinesError ''Combined_Financial_Data.csv'' = Inl e \<longrightarrow>
      load_budget_data (pd_read_csv L) = Inl e \<and> app L inp = Inl e)
   \<and> (pd_read_csv L BadLinesError ''Expenditure.csv'' = Inl e \<longrightarrow>
      load_expenditure_data (pd_read_csv L) = Inl e
      \<and> (\<forall>b. load_budget_data (pd_read_csv L) = Inr b \<longrightarrow> app L inp = Inl e))"
  by (simp add: load_budget_data_def load_expenditure_data_def app_def)

text \<open>A reader failing on the budget file, and one failing on the expenditure file.\<close>

theorem loaders_propagate_witness:
  "load_budget_data (reader_failing_on [''Combined_Financial_Data.csv''])
     = Inl (Raised ''No columns to parse from file'')
   \<and> app (stub_libs (reader_failing_on [''Combined_Financial_Data.csv'']) api_42)
         (example_inputs IncomeTaxData (Str ''A'') ''why'')
     = Inl (Raised ''No columns to parse from file'')
   \<and> load_expenditure_data (reader_failing_on [''Expenditure.csv''])
     = Inl (Raised ''No columns to parse from file'')
   \<and> load_budget_data (reader_failing_on [''Expenditure.csv'']) = Inr example_table
   \<and> app (stub_libs (reader_failing_on [''Expenditure.csv'']) api_42)
         (example_inputs BudgetData (Str ''A'') ''why'')
     = Inl (Raised ''No columns to parse from file'')"
  using loaders_propagate [of "stub_libs (reader_failing_on [''Combined_Financial_Data.csv'']) api_42"
      "Raised ''No columns to parse from file''" "example_inputs IncomeTaxData (Str ''A'') ''why''"]
    loaders_propagate [of "stub_libs (reader_failing_on [''Expenditure.csv'']) api_42"
      "Raised ''No columns to parse from file''" "example_inputs BudgetData (Str ''A'') ''why''"]
  by (simp add: example_defs load_budget_data_def load_expenditure_data_def)

text \<open>
  C8. When the question is not empty, the payload sent to the hosted model carries
  the question and, as context, the text rendering of the concatenation of the
  budget, expenditure and income-tax tables, in this order; the page then shows
  "**Answer:** " followed by what the bridge returned.
\<close>

theorem question_context_and_answer:
  assumes "q \<noteq> []"
  shows "question_block L q s =
     (case hf_api L \<lparr>inputs_question = q,
            inputs_context =
              df_to_string L (pd_concat L [budget_data s, expenditure_data s, income_tax_data s])\<rparr> of
        Inl e \<Rightarrow> Inl e
      | Inr result \<Rightarrow>
          Inr (s\<lparr>screen := screen s @
                 [Write (''**Answer:** '' @
                    (case result ''answer'' of Some a \<Rightarrow> a | None \<Rightarrow> ''No answer found.''))]\<rparr>))"
  using assms
  by (simp add: question_block_def query_hf_api_def all_data_context_def split: sum.splits)

text \<open>
  With the model that answers with the context it received, the page shows the
  rendering of the nine rows of the three example tables.
\<close>

theorem question_context_and_answer_witness:
  "question_block (stub_libs (reader_failing_on []) api_echo) ''why'' example_session
     = Inr (example_session\<lparr>screen := [Write ''**Answer:** rows: *********'']\<rparr>)"
  using question_context_and_answer [of "''why''" "stub_libs (reader_failing_on []) api_echo"
      example_session]
  by (simp add: example_defs numeral_eq_Suc)

text \<open>
  C9. Rendering a tab and answering a question leave the three loaded tables of the
  session as they were: both only add elements to the page. (The filter builds a new
  table; the chart constructor is a function of the table it is given.)
\<close>

theorem tables_unchanged:
  "(render_tab L inp s = Inr s' \<longrightarrow>
      budget_data s' = budget_data s \<and> expenditure_data s' = expenditure_data s
      \<and> income_tax_data s' = income_tax_data s)
   \<and> (question_block L q s = Inr s'' \<longrightarrow>
      budget_data s'' = budget_data s \<and> expenditure_data s'' = expenditure_data s
      \<and> income_tax_data s'' = income_tax_data s)"
  using render_tab_frame question_block_frame by blast

text \<open>The budget tab filtered to A, and a question, on the example session.\<close>

theorem tables_unchanged_witness:
  "render_tab (stub_libs (reader_failing_on []) api_42)
       (example_inputs BudgetData (Str ''A'') ''why'') example_session
     = Inr (example_session\<lparr>screen :=
          [Dataframe \<lparr>columns = [''Source'', ''Amount''],
                      rows = [[Str ''A'', Num 1], [Str ''A'', Num 3]]\<rparr>,
           PlotlyChart
             (BarChart,
              \<lparr>columns = [''Source'', ''Amount''], rows = [[Str ''A'', Num 1], [Str ''A'', Num 3]]\<rparr>,
              ''Source'', ''Amount'')]\<rparr>)
   \<and> question_block (stub_libs (reader_failing_on []) api_42) ''why'' example_session
     = Inr (example_session\<lparr>screen := [Write ''**Answer:** 42'']\<rparr>)
   \<and> budget_data (example_session\<lparr>screen := [Write ''**Answer:** 42'']\<rparr>) = example_table"
  using tables_unchanged [of "stub_libs (reader_failing_on []) api_42"
      "example_inputs BudgetData (Str ''A'') ''why''" example_session
      "example_session\<lparr>screen :=
          [Dataframe \<lparr>columns = [''Source'', ''Amount''],
                      rows = [[Str ''A'', Num 1], [Str ''A'', Num 3]]\<rparr>,
           PlotlyChart
             (BarChart,
              \<lparr>columns = [''Source'', ''Amount''], rows = [[Str ''A'', Num 1], [Str ''A'', Num 3]]\<rparr>,
              ''Source'', ''Amount'')]\<rparr>"
      "''why''" "example_session\<lparr>screen := [Write ''**Answer:** 42'']\<rparr>"]
  by (simp add: example_defs table_op_defs page_defs)

text \<open>
  C10. Reading the first column name fails with IndexError exactly on a table
  without columns; with at least one column it succeeds, and so does the list of
  distinct values. The income-tax tab on the empty table therefore raises
  IndexError, and so does the whole run when the income-tax reader failed (the
  loader having substituted the empty table) and the income-tax tab is chosen.
\<close>

theorem empty_income_tax_table_index_error:
  "(columns0 df = Inl IndexError \<longleftrightarrow> columns df = [])
   \<and> (columns df \<noteq> [] \<longrightarrow> (\<exists>c groups. columns0 df = Inr c \<and> item_groups df = Inr groups))
   \<and> income_tax_tab L inp (s\<lparr>income_tax_data := DataFrame_empty\<rparr>) = Inl IndexError
   \<and> (load_budget_data (pd_read_csv L) = Inr b \<and> load_expenditure_data (pd_read_csv L) = Inr x
        \<and> pd_read_csv L BadLinesSkip ''Income Tax.csv'' = Inl err
        \<and> dataset_type inp = IncomeTaxData \<longrightarrow> app L inp = Inl IndexError)"
  by (auto simp: columns0_def item_groups_def getitem_col_def income_tax_tab_def category_tab_def
      dropdown_options_def DataFrame_empty_def app_def load_income_tax_data_def render_tab_def
      split: list.splits)

text \<open>
  A run whose income-tax file cannot be read, with the income-tax tab chosen; and the
  first column of the example table.
\<close>

theorem empty_income_tax_table_index_error_witness:
  "app (stub_libs (reader_failing_on [''Income Tax.csv'']) api_42)
       (example_inputs IncomeTaxData (Str ''Show Full Table'') []) = Inl IndexError
   \<and> load_income_tax_data (reader_failing_on [''Income Tax.csv''])
     = (DataFrame_empty, [''Error loading Income Tax Data: No columns to parse from file''])
   \<and> columns0 example_table = Inr ''Source''
   \<and> item_groups example_table = Inr [Str ''A'', Str ''B'']"
  using empty_income_tax_table_index_error [of example_table
      "stub_libs (reader_failing_on [''Income Tax.csv'']) api_42"
      "example_inputs IncomeTaxData (Str ''Show Full Table'') []" example_session
      example_table example_table "Raised ''No columns to parse from file''"]
  by (simp add: example_defs table_op_defs load_budget_data_def load_expenditure_data_def
      load_income_tax_data_def)

end
